theory Spec2Isabelle
  imports Main "HOL-Library.AList"
begin

section \<open>JavaScript containers\<close>

text \<open>
  A JavaScript \<^verbatim>\<open>Map\<close> and a plain object used as a dictionary both keep their keys in
  insertion order, and the code reads that order (\<^verbatim>\<open>dups.entries().next()\<close>, the
  \<^verbatim>\<open>for ... of\<close> loops). Both are modelled as association lists with pairwise distinct
  keys:
  \<^item> \<^verbatim>\<open>m.get(k)\<close> is \<^term>\<open>map_of m k\<close> (\<^term>\<open>None\<close> is \<^verbatim>\<open>undefined\<close>);
  \<^item> \<^verbatim>\<open>m.set(k, v)\<close> is \<^term>\<open>AList.update k v m\<close>: an existing key keeps its place,
    a new key goes to the end;
  \<^item> \<^verbatim>\<open>m.delete(k)\<close> is \<^term>\<open>AList.delete k m\<close>;
  \<^item> \<^verbatim>\<open>m.size\<close> and \<^verbatim>\<open>Object.keys(o).length\<close> are the length of the list;
  \<^item> \<^verbatim>\<open>new Map(m)\<close> is a shallow copy, which is \<open>m\<close> itself in a model that passes
    values.
  The code mutates maps in place; the model returns the updated value, and where two
  names denote the same object the model says so at that place.
\<close>

type_synonym ('k, 'v) js_map = "('k \<times> 'v) list"

definition js_size :: "('k, 'v) js_map \<Rightarrow> nat" where
  "js_size m = length m"

definition endsWith :: "string \<Rightarrow> string \<Rightarrow> bool" where
  "endsWith s suf =
     (length suf \<le> length s \<and> drop (length s - length suf) s = suf)"

section \<open>Constants (constants.ts)\<close>

definition H_MODULE :: nat where "H_MODULE = 0"
definition H_PACKAGE :: nat where "H_PACKAGE = 1"
definition H_GENERIC_PLATFORM :: string where "H_GENERIC_PLATFORM = ''g''"
definition H_NATIVE_PLATFORM :: string where "H_NATIVE_PLATFORM = ''native''"

text \<open>The model is of a POSIX host: \<^verbatim>\<open>path.sep\<close> is the slash.\<close>

definition path_sep :: string where "path_sep = ''/''"
definition PACKAGE_JSON :: string where "PACKAGE_JSON = path_sep @ ''package.json''"
definition NODE_MODULES :: string where
  "NODE_MODULES = path_sep @ ''node_modules'' @ path_sep"

section \<open>Data model (types.ts)\<close>

text \<open>
  \<^verbatim>\<open>FileMetaData\<close> is the six-element tuple indexed by \<^verbatim>\<open>H.ID\<close> ... \<^verbatim>\<open>H.SHA1\<close>.
  The sha1 slot is \<^verbatim>\<open>string | null | undefined\<close>; \<^term>\<open>None\<close> stands for both
  \<^verbatim>\<open>null\<close> and \<^verbatim>\<open>undefined\<close>, which no code of the repository tells apart.
\<close>

record FileMetaData =
  fm_id :: string
  fm_mtime :: int
  fm_size :: int
  fm_visited :: nat
  fm_dependencies :: string
  fm_sha1 :: "string option"

text \<open>\<^verbatim>\<open>ModuleMetaData = [path, type]\<close>; a \<^verbatim>\<open>DuplicatesSet\<close> maps a path to its type.\<close>

type_synonym ModuleMetaData = "string \<times> nat"
type_synonym ModuleMapItem = "(string, ModuleMetaData) js_map"
type_synonym ModuleMapData = "(string, ModuleMapItem) js_map"
type_synonym DuplicatesSet = "(string, nat) js_map"
type_synonym DuplicatesIndex = "(string, (string, DuplicatesSet) js_map) js_map"
type_synonym FileData = "(string, FileMetaData) js_map"
type_synonym MockData = "(string, string) js_map"

text \<open>
  \<^verbatim>\<open>WatchmanClockSpec = string | {scm: {"mergebase-with": string}}\<close>. The code tests
  \<^verbatim>\<open>since?.scm?.["mergebase-with"] !== undefined\<close>, so the object form carries an optional
  merge base.
\<close>

datatype WatchmanClockSpec = ClockString string | ClockScm "string option"

type_synonym WatchmanClocks = "(string, WatchmanClockSpec) js_map"

record InternalHasteMap =
  hm_clocks :: WatchmanClocks
  hm_duplicates :: DuplicatesIndex
  hm_files :: FileData
  hm_map :: ModuleMapData
  hm_mocks :: MockData

definition createEmptyMap :: InternalHasteMap where
  "createEmptyMap =
     \<lparr>hm_clocks = [], hm_duplicates = [], hm_files = [], hm_map = [], hm_mocks = []\<rparr>"

section \<open>The duplicate reconciler (index.ts)\<close>

subsection \<open>recoverDuplicates\<close>

text \<open>
  \<^verbatim>\<open>_recoverDuplicates(hasteMap, relativeFilePath, moduleName)\<close>. Each early
  \<^verbatim>\<open>return\<close> of the source is a branch that returns the haste map as it is at that
  point. The copies \<^verbatim>\<open>new Map(dupsByPlatform)\<close> and \<^verbatim>\<open>new Map(dups)\<close> are written back
  into \<^verbatim>\<open>hasteMap.duplicates\<close> before \<^verbatim>\<open>dups.delete\<close> runs, so the deletion is visible
  in the haste map also when the function returns early.
  \<^verbatim>\<open>dups.entries().next().value\<close> is the first entry of the map, the pair
  \<^verbatim>\<open>[path, type]\<close>, or \<^verbatim>\<open>undefined\<close> for an empty map.
\<close>

definition recoverDuplicates ::
  "InternalHasteMap \<Rightarrow> string \<Rightarrow> string \<Rightarrow> InternalHasteMap" where
  "recoverDuplicates hasteMap relativeFilePath moduleName =
     (case map_of (hm_duplicates hasteMap) moduleName of
        None \<Rightarrow> hasteMap
      | Some dupsByPlatform0 \<Rightarrow>
         (let platform = H_GENERIC_PLATFORM in
          case map_of dupsByPlatform0 platform of
            None \<Rightarrow> hasteMap
          | Some dups0 \<Rightarrow>
             (let dups = AList.delete relativeFilePath dups0;
                  dupsByPlatform = AList.update platform dups dupsByPlatform0;
                  hasteMap1 = hasteMap
                    \<lparr>hm_duplicates :=
                       AList.update moduleName dupsByPlatform (hm_duplicates hasteMap)\<rparr>
              in if js_size dups \<noteq> 1 then hasteMap1
                 else
                   (case dups of
                      [] \<Rightarrow> hasteMap1
                    | uniqueModule # _ \<Rightarrow>
                       (let map1 =
                              (case map_of (hm_map hasteMap1) moduleName of
                                 None \<Rightarrow> AList.update moduleName [] (hm_map hasteMap1)
                               | Some _ \<Rightarrow> hm_map hasteMap1);
                            dedupMap =
                              (case map_of (hm_map hasteMap1) moduleName of
                                 None \<Rightarrow> []
                               | Some d \<Rightarrow> d);
                            map2 = AList.update moduleName
                                     (AList.update platform uniqueModule dedupMap) map1;
                            dupsByPlatform2 = AList.delete platform dupsByPlatform;
                            duplicates1 =
                              AList.update moduleName dupsByPlatform2
                                (hm_duplicates hasteMap1);
                            duplicates2 =
                              (if js_size dupsByPlatform2 = 0
                               then AList.delete moduleName duplicates1
                               else duplicates1)
                        in hasteMap1 \<lparr>hm_map := map2, hm_duplicates := duplicates2\<rparr>)))))"

subsection \<open>setModule\<close>

text \<open>
  The closure \<^verbatim>\<open>setModule(id, module)\<close> of \<^verbatim>\<open>_processFile\<close>. It works on the
  \<^verbatim>\<open>map\<close> argument of \<^verbatim>\<open>_processFile\<close> and on \<^verbatim>\<open>hasteMap.duplicates\<close>, and it logs to
  the console. The model returns the three of them: the module map, the duplicates
  index and the warnings printed. In the source the variable \<^verbatim>\<open>dupsByPlatform\<close> is read
  from \<^verbatim>\<open>hasteMap.duplicates\<close>, replaced by a new empty \<^verbatim>\<open>Map\<close> when absent, and then
  the function ends: nothing is stored, so the duplicates index comes back as it went in.
\<close>

definition collisionWarning :: "string \<Rightarrow> string \<Rightarrow> string \<Rightarrow> string" where
  "collisionWarning ident existingPath modulePath =
     ''jest-haste-map: Haste module naming collision: '' @ ident @ ''\<newline>'' @
     '' The following files share their name: please adjust your hasteImpl:'' @ ''\<newline>'' @
     ''   *<rootDir>'' @ path_sep @ existingPath @ ''\<newline>'' @
     ''   *<rootDIr>'' @ path_sep @ modulePath @ ''\<newline>''"

definition setModule ::
  "ModuleMapData \<Rightarrow> DuplicatesIndex \<Rightarrow> string \<Rightarrow> ModuleMetaData
     \<Rightarrow> ModuleMapData \<times> DuplicatesIndex \<times> string list" where
  "setModule map0 duplicates0 ident module =
     (let moduleMap0 = (case map_of map0 ident of None \<Rightarrow> [] | Some m \<Rightarrow> m);
          map1 = (case map_of map0 ident of
                    None \<Rightarrow> AList.update ident [] map0
                  | Some _ \<Rightarrow> map0);
          platform = H_GENERIC_PLATFORM
      in case map_of moduleMap0 platform of
           None \<Rightarrow> (map1, duplicates0, [])
         | Some existingModule \<Rightarrow>
            if fst existingModule \<noteq> fst module then
              (let moduleMap = AList.delete platform moduleMap0;
                   map2 = AList.update ident moduleMap map1;
                   map3 = (if js_size moduleMap = 1
                           then AList.delete ident map2 else map2);
                   dupsByPlatform =
                     (case map_of duplicates0 ident of None \<Rightarrow> [] | Some d \<Rightarrow> d)
               in (map3, duplicates0,
                   [collisionWarning ident (fst existingModule) (fst module)]))
            else (map1, duplicates0, []))"

subsection \<open>The worker callbacks of \<^verbatim>\<open>_processFile\<close>\<close>

text \<open>
  \<^verbatim>\<open>WorkerMetadata\<close>: each field may be \<^verbatim>\<open>undefined\<close> or \<^verbatim>\<open>null\<close>
  (\<^term>\<open>None\<close>).
\<close>

record WorkerMetadata =
  wm_dependencies :: "string list option"
  wm_id :: "string option"
  wm_module :: "ModuleMetaData option"
  wm_sha1 :: "string option"

definition H_DEPENDENCY_DELIM :: string where
  "H_DEPENDENCY_DELIM = [CHR 0x00]"

fun join :: "string \<Rightarrow> string list \<Rightarrow> string" where
  "join delim [] = []"
| "join delim [x] = x"
| "join delim (x # y # ys) = x @ delim @ join delim (y # ys)"

text \<open>
  \<^verbatim>\<open>workerReply(metadata)\<close> writes into the \<^verbatim>\<open>fileMetadata\<close> tuple of the file and
  calls \<^verbatim>\<open>setModule\<close>. An id is truthy when it is a non-empty string; a module tuple
  is always truthy.
\<close>

definition workerReply ::
  "ModuleMapData \<Rightarrow> DuplicatesIndex \<Rightarrow> FileMetaData \<Rightarrow> WorkerMetadata
     \<Rightarrow> FileMetaData \<times> ModuleMapData \<times> DuplicatesIndex \<times> string list" where
  "workerReply map0 duplicates0 fileMetadata metadata =
     (let fm1 = fileMetadata \<lparr>fm_visited := 1\<rparr>;
          withModule =
            (case (wm_id metadata, wm_module metadata) of
               (Some metadataId, Some metadataModule) \<Rightarrow>
                 if metadataId \<noteq> [] then
                   (let (map1, duplicates1, warnings) =
                          setModule map0 duplicates0 metadataId metadataModule
                    in (fm1 \<lparr>fm_id := metadataId\<rparr>, map1, duplicates1, warnings))
                 else (fm1, map0, duplicates0, [])
             | _ \<Rightarrow> (fm1, map0, duplicates0, []))
      in case withModule of
           (fm2, map1, duplicates1, warnings) \<Rightarrow>
             (fm2 \<lparr>fm_dependencies :=
                     (case wm_dependencies metadata of
                        Some deps \<Rightarrow> join H_DEPENDENCY_DELIM deps
                      | None \<Rightarrow> []),
                   fm_sha1 := wm_sha1 metadata\<rparr>,
              map1, duplicates1, warnings))"

text \<open>
  What a worker rejects with: an error object with its \<^verbatim>\<open>message\<close>, \<^verbatim>\<open>stack\<close> and
  optional \<^verbatim>\<open>code\<close>, or a value that is not an object. \<^verbatim>\<open>workerEror\<close> (the source's
  spelling) first wraps anything that is not an object with a non-empty message and
  stack into \<^verbatim>\<open>new Error(error)\<close>, whose message is the string form of the value, whose
  stack is reset to the empty string and which has no code. It then rethrows unless the
  code is in the list of the source, and otherwise deletes the file from
  \<^verbatim>\<open>hasteMap.files\<close>. The result is \<^term>\<open>Inl\<close> of the error thrown, or \<^term>\<open>Inr\<close> of
  the files map after the deletion.
\<close>

record ErrorObject =
  err_message :: string
  err_stack :: string
  err_code :: "string option"

datatype Thrown = ThrownObject ErrorObject | ThrownValue string

definition errorToString :: "ErrorObject \<Rightarrow> string" where
  "errorToString e =
     (if err_message e = [] then ''Error'' else ''Error: '' @ err_message e)"

definition toErrorObject :: "Thrown \<Rightarrow> ErrorObject" where
  "toErrorObject error =
     (case error of
        ThrownValue v \<Rightarrow> \<lparr>err_message = v, err_stack = [], err_code = None\<rparr>
      | ThrownObject e \<Rightarrow>
          if err_message e = [] \<or> err_stack e = []
          then \<lparr>err_message = errorToString e, err_stack = [], err_code = None\<rparr>
          else e)"

definition recoverableCodes :: "string list" where
  "recoverableCodes = [''ENONET'', ''EACCES'']"

definition workerEror :: "FileData \<Rightarrow> string \<Rightarrow> Thrown \<Rightarrow> ErrorObject + FileData" where
  "workerEror files relativeFilePath error =
     (let e = toErrorObject error
      in if \<not> (case err_code e of
                  None \<Rightarrow> False
                | Some c \<Rightarrow> c \<in> set recoverableCodes)
         then Inl e
         else Inr (AList.delete relativeFilePath files))"

subsection \<open>buildHasteMap\<close>

text \<open>
  The crawler's result, which is also the argument of \<^verbatim>\<open>_buildHasteMap\<close>:
  \<^verbatim>\<open>changedFiles\<close> may be \<^verbatim>\<open>undefined\<close>.
\<close>

record CrawlResult =
  cr_changedFiles :: "FileData option"
  cr_hasteMap :: InternalHasteMap
  cr_removedFiles :: FileData

text \<open>
  \<^verbatim>\<open>_buildHasteMap(data)\<close> has no \<^verbatim>\<open>return\<close>; what it does is in its local variables
  \<^verbatim>\<open>map\<close>, \<^verbatim>\<open>mocks\<close> and \<^verbatim>\<open>filesToProcess\<close> and in the haste map it mutates through
  \<^verbatim>\<open>_recoverDuplicates\<close>. The model returns those, as they are when the body ends,
  together with the relative paths for which the last loop gets past its
  \<^verbatim>\<open>package.json\<close> guard (the loop computes an absolute path for them and does nothing
  else).

  In the branch that retains the prior maps, the local \<^verbatim>\<open>map\<close> is the object
  \<^verbatim>\<open>hasteMap.map\<close> itself, which \<^verbatim>\<open>_recoverDuplicates\<close> may write to afterwards, so the
  local is read from the haste map after the removal loop.
\<close>

record BuildLocals =
  bl_map :: ModuleMapData
  bl_mocks :: MockData
  bl_filesToProcess :: FileData
  bl_hasteMap :: InternalHasteMap
  bl_reached :: "string list"

definition recoverRemoved :: "InternalHasteMap \<Rightarrow> FileData \<Rightarrow> InternalHasteMap" where
  "recoverRemoved hasteMap0 removed =
     foldl (\<lambda>h (relativeFilePath, fileMetadata).
              recoverDuplicates h relativeFilePath (fm_id fileMetadata))
       hasteMap0 removed"

definition reached :: "FileData \<Rightarrow> string list" where
  "reached filesToProcess =
     filter (\<lambda>relativeFilePath. \<not> endsWith relativeFilePath PACKAGE_JSON)
       (map fst filesToProcess)"

definition buildHasteMap :: "CrawlResult \<Rightarrow> BuildLocals" where
  "buildHasteMap data =
     (let removed = cr_removedFiles data;
          hasteMap0 = cr_hasteMap data;
          hasteMap1 = recoverRemoved hasteMap0 removed;
          processAll =
            \<lparr>bl_map = [], bl_mocks = [],
             bl_filesToProcess = hm_files hasteMap0,
             bl_hasteMap = hasteMap1,
             bl_reached = reached (hm_files hasteMap0)\<rparr>
      in case cr_changedFiles data of
           None \<Rightarrow> processAll
         | Some changed \<Rightarrow>
             if js_size removed > 0 then processAll
             else \<lparr>bl_map = hm_map hasteMap1, bl_mocks = hm_mocks hasteMap1,
                   bl_filesToProcess = changed,
                   bl_hasteMap = hasteMap1,
                   bl_reached = reached changed\<rparr>)"

subsection \<open>build\<close>

text \<open>
  \<^verbatim>\<open>build()\<close> tests the field \<^verbatim>\<open>_buildPromise\<close>, initially \<^verbatim>\<open>null\<close>, and when it is
  falsy stores an \<^verbatim>\<open>async\<close> arrow function in it. The function is stored, not called,
  and \<^verbatim>\<open>build\<close> has no \<^verbatim>\<open>return\<close>: its value is \<^verbatim>\<open>undefined\<close>, modelled as
  \<^term>\<open>None\<close> of the type of what a build would resolve to.
\<close>

datatype BuildPromise = BuildPromiseNull | BuildPromiseAsyncFunction

record HasteMapInstance =
  inst_buildPromise :: BuildPromise
  inst_cachePath :: string

definition build :: "HasteMapInstance \<Rightarrow> HasteMapInstance \<times> InternalHasteMap option" where
  "build this =
     ((if inst_buildPromise this = BuildPromiseNull
       then this \<lparr>inst_buildPromise := BuildPromiseAsyncFunction\<rparr>
       else this),
      None)"

section \<open>The crawler (crawlers/watchman.ts)\<close>

subsection \<open>Responses of the watch service\<close>

text \<open>
  One file of a query response. \<^verbatim>\<open>mtime_ms\<close> is a number or an object with
  \<^verbatim>\<open>toNumber()\<close>; either way the crawler takes the number, an integer count of
  milliseconds here. The field \<^verbatim>\<open>content.sha1hex\<close> is optional and, as the crawler's
  \<^verbatim>\<open>typeof\<close> test shows, need not be a string when present.
\<close>

datatype Sha1Field = Sha1Undefined | Sha1String string | Sha1NotAString

record WatchmanFile =
  wf_name :: string
  wf_exists :: bool
  wf_mtime_ms :: int
  wf_size :: int
  wf_sha1hex :: Sha1Field

text \<open>The clock of a response: a string, or an object whose \<^verbatim>\<open>clock\<close> field is one.\<close>

datatype ResponseClock = ResponseClockString string | ResponseClockObject string

record WatchmanQueryResponse =
  qr_is_fresh_instance :: bool
  qr_clock :: ResponseClock
  qr_files :: "WatchmanFile list"

definition normalizePathSep :: "string \<Rightarrow> string" where
  "normalizePathSep filePath =
     (if path_sep = ''/'' then filePath
      else concat (map (\<lambda>c. if c = CHR ''/'' then path_sep else [c]) filePath))"

subsection \<open>Freshness\<close>

text \<open>
  \<^verbatim>\<open>queryWatchmanForDirs\<close> sends one query per watch root and folds the answers into
  \<^verbatim>\<open>isFresh\<close>: an answer counts unless the clock stored for the root is a
  source-control query. The answers arrive as a list of (root, response) in the order
  in which \<^verbatim>\<open>results.set\<close> ran. \<^verbatim>\<open>path.relative\<close> belongs to the platform and is a
  parameter, \<open>relative\<close>.
\<close>

definition isSourceControlQuery :: "WatchmanClockSpec option \<Rightarrow> bool" where
  "isSourceControlQuery since =
     (case since of
        Some (ClockScm (Some mergebaseWith)) \<Rightarrow> True
      | _ \<Rightarrow> False)"

definition queryIsFresh ::
  "(string \<Rightarrow> string \<Rightarrow> string) \<Rightarrow> string \<Rightarrow> WatchmanClocks
     \<Rightarrow> (string \<times> WatchmanQueryResponse) list \<Rightarrow> bool" where
  "queryIsFresh relative rootDir clocks results =
     foldl (\<lambda>isFresh (root, response).
              if \<not> isSourceControlQuery (map_of clocks (relative rootDir root))
              then isFresh \<or> qr_is_fresh_instance response
              else isFresh)
       False results"

subsection \<open>Merging one response file\<close>

definition validSha1hex :: "Sha1Field \<Rightarrow> string option" where
  "validSha1hex field =
     (case field of
        Sha1String s \<Rightarrow> if length s \<noteq> 40 then None else Some s
      | _ \<Rightarrow> None)"

definition nextData ::
  "FileMetaData option \<Rightarrow> int \<Rightarrow> int \<Rightarrow> string option \<Rightarrow> FileMetaData" where
  "nextData existingFileData mtime fileSize sha1hex =
     (let pristine =
            \<lparr>fm_id = [], fm_mtime = mtime, fm_size = fileSize, fm_visited = 0,
             fm_dependencies = [], fm_sha1 = sha1hex\<rparr>
      in case existingFileData of
           None \<Rightarrow> pristine
         | Some existing \<Rightarrow>
             if fm_mtime existing = mtime then existing
             else if sha1hex \<noteq> None \<and> fm_sha1 existing = sha1hex
             then existing \<lparr>fm_mtime := mtime\<rparr>
             else pristine)"

text \<open>
  The state of the merge loop. When the instance is not fresh, \<^verbatim>\<open>files\<close> is the object
  \<^verbatim>\<open>data.files\<close> itself, so \<^verbatim>\<open>data.files.get\<close> sees what the loop has written so far;
  when it is fresh, \<^verbatim>\<open>files\<close> is a new map and \<^verbatim>\<open>data.files\<close> stays the previous
  index until the loop is over. \<open>previousFiles\<close> is \<^verbatim>\<open>data.files\<close> on entry.
\<close>

record CrawlState =
  cs_files :: FileData
  cs_removedFiles :: FileData
  cs_changedFiles :: FileData
  cs_clocks :: WatchmanClocks

definition mergeFile ::
  "(string \<Rightarrow> string \<Rightarrow> string) \<Rightarrow> string \<Rightarrow> bool \<Rightarrow> FileData \<Rightarrow> string
     \<Rightarrow> CrawlState \<Rightarrow> WatchmanFile \<Rightarrow> CrawlState" where
  "mergeFile relative rootDir isFresh previousFiles fsRoot st fileData =
     (let filePath = fsRoot @ path_sep @ normalizePathSep (wf_name fileData);
          relativeFilePath = relative rootDir filePath;
          existingFileData =
            map_of (if isFresh then previousFiles else cs_files st) relativeFilePath;
          st1 = (if isFresh \<and> existingFileData \<noteq> None \<and> wf_exists fileData
                 then st \<lparr>cs_removedFiles :=
                             AList.delete relativeFilePath (cs_removedFiles st)\<rparr>
                 else st)
      in if \<not> wf_exists fileData then
           (case existingFileData of
              None \<Rightarrow> st1
            | Some existing \<Rightarrow>
               (let st2 = st1 \<lparr>cs_files := AList.delete relativeFilePath (cs_files st1)\<rparr>
                in if \<not> isFresh
                   then st2 \<lparr>cs_removedFiles :=
                               AList.update relativeFilePath existing (cs_removedFiles st2)\<rparr>
                   else st2))
         else if filePath \<noteq> [] then
           (let next = nextData existingFileData (wf_mtime_ms fileData) (wf_size fileData)
                         (validSha1hex (wf_sha1hex fileData))
            in st1 \<lparr>cs_files := AList.update relativeFilePath next (cs_files st1),
                    cs_changedFiles :=
                      AList.update relativeFilePath next (cs_changedFiles st1)\<rparr>)
         else st1)"

subsection \<open>watchmanCrawl\<close>

definition clockString :: "ResponseClock \<Rightarrow> string" where
  "clockString c = (case c of ResponseClockString s \<Rightarrow> s | ResponseClockObject s \<Rightarrow> s)"

definition mergeResponse ::
  "(string \<Rightarrow> string \<Rightarrow> string) \<Rightarrow> string \<Rightarrow> bool \<Rightarrow> FileData
     \<Rightarrow> CrawlState \<Rightarrow> string \<times> WatchmanQueryResponse \<Rightarrow> CrawlState" where
  "mergeResponse relative rootDir isFresh previousFiles st entry =
     (case entry of
        (watchRoot, response) \<Rightarrow>
          (let fsRoot = normalizePathSep watchRoot;
               relativeFsRoot = relative rootDir fsRoot;
               st1 = st \<lparr>cs_clocks :=
                          AList.update relativeFsRoot
                            (ClockString (clockString (qr_clock response)))
                            (cs_clocks st)\<rparr>
           in foldl (mergeFile relative rootDir isFresh previousFiles fsRoot) st1
                (qr_files response)))"

definition initialCrawlState :: "bool \<Rightarrow> InternalHasteMap \<Rightarrow> CrawlState" where
  "initialCrawlState isFresh data =
     (if isFresh
      then \<lparr>cs_files = [], cs_removedFiles = hm_files data, cs_changedFiles = [],
            cs_clocks = hm_clocks data\<rparr>
      else \<lparr>cs_files = hm_files data, cs_removedFiles = [], cs_changedFiles = [],
            cs_clocks = hm_clocks data\<rparr>)"

definition mergeResults ::
  "(string \<Rightarrow> string \<Rightarrow> string) \<Rightarrow> string \<Rightarrow> bool \<Rightarrow> InternalHasteMap
     \<Rightarrow> (string \<times> WatchmanQueryResponse) list \<Rightarrow> CrawlState" where
  "mergeResults relative rootDir isFresh data results =
     foldl (mergeResponse relative rootDir isFresh (hm_files data))
       (initialCrawlState isFresh data) results"

text \<open>
  \<^verbatim>\<open>watchmanCrawl\<close> after its conversation with the watch service. \<open>queried\<close> is the
  outcome of the \<^verbatim>\<open>try\<close> block, the answers or the rejection of a command, and
  \<open>clientError\<close> is what the client's error handler has recorded, if anything. Either
  failure is thrown (\<^term>\<open>Inl\<close>) before anything is merged.
\<close>

definition watchmanCrawl ::
  "(string \<Rightarrow> string \<Rightarrow> string) \<Rightarrow> string \<Rightarrow> InternalHasteMap
     \<Rightarrow> string + (string \<times> WatchmanQueryResponse) list \<Rightarrow> string option
     \<Rightarrow> string + CrawlResult" where
  "watchmanCrawl relative rootDir data queried clientError =
     (case queried of
        Inl commandError \<Rightarrow> Inl commandError
      | Inr results \<Rightarrow>
         (case clientError of
            Some e \<Rightarrow> Inl e
          | None \<Rightarrow>
             (let isFresh = queryIsFresh relative rootDir (hm_clocks data) results;
                  st = mergeResults relative rootDir isFresh data results
              in Inr \<lparr>cr_changedFiles =
                        (if isFresh then None else Some (cs_changedFiles st)),
                      cr_hasteMap = data \<lparr>hm_files := cs_files st,
                                           hm_clocks := cs_clocks st\<rparr>,
                      cr_removedFiles = cs_removedFiles st\<rparr>)))"

section \<open>The file worker (worker.ts)\<close>

text \<open>
  A parsed JSON value. \<^verbatim>\<open>JSON.parse\<close>, \<^verbatim>\<open>fs.readFileSync\<close>, \<^verbatim>\<open>require\<close>, the loading
  of a dependency extractor and \<^verbatim>\<open>path.relative\<close> belong to the platform: they are the
  fields of an environment, and each of those that can throw returns a sum whose
  \<^term>\<open>Inl\<close> is the message of the error.
\<close>

datatype json =
    JNull
  | JBool bool
  | JNumber int
  | JString string
  | JArray "json list"
  | JObject "(string \<times> json) list"

text \<open>
  \<^verbatim>\<open>fileData.name\<close>: reading a property of \<^verbatim>\<open>null\<close> throws a \<^verbatim>\<open>TypeError\<close>; an
  object gives the member or \<^verbatim>\<open>undefined\<close>; numbers, booleans, strings and arrays have
  no \<^verbatim>\<open>name\<close>.
\<close>

definition getName :: "json \<Rightarrow> string + json option" where
  "getName fileData =
     (case fileData of
        JNull \<Rightarrow> Inl ''Cannot read properties of null (reading 'name')''
      | JObject members \<Rightarrow> Inr (map_of members ''name'')
      | _ \<Rightarrow> Inr None)"

fun truthy :: "json \<Rightarrow> bool" where
  "truthy JNull = False"
| "truthy (JBool b) = b"
| "truthy (JNumber n) = (n \<noteq> 0)"
| "truthy (JString s) = (s \<noteq> [])"
| "truthy (JArray _) = True"
| "truthy (JObject _) = True"

type_synonym HasteImpl = "string \<Rightarrow> string option"

record WorkerEnv =
  env_readFileSync :: "string \<Rightarrow> string + string"
  env_JSON_parse :: "string \<Rightarrow> string + json"
  env_relative :: "string \<Rightarrow> string \<Rightarrow> string"
  env_require :: "string \<Rightarrow> HasteImpl"
  env_extractor :: "string option \<Rightarrow> string + (string \<Rightarrow> string \<Rightarrow> string list)"

record WorkerMessage =
  msg_computeDependencies :: bool
  msg_computeSha1 :: bool
  msg_dependencyExtractor :: "string option"
  msg_rootDir :: string
  msg_filePath :: string
  msg_hasteImplModulePath :: "string option"
  msg_retainAllFiles :: "bool option"

text \<open>The two module-level variables of the worker.\<close>

record WorkerGlobals =
  wg_hasteImpl :: "HasteImpl option"
  wg_hasteImplModulePath :: "string option"

text \<open>
  The local variables \<^verbatim>\<open>dependencies\<close>, \<^verbatim>\<open>id\<close>, \<^verbatim>\<open>module\<close> and \<^verbatim>\<open>sha1\<close> of
  \<^verbatim>\<open>worker\<close>. The id of a \<^verbatim>\<open>package.json\<close> is whatever truthy value its \<^verbatim>\<open>name\<close>
  member holds.
\<close>

record WorkerLocals =
  wl_dependencies :: "string list option"
  wl_id :: "json option"
  wl_module :: "ModuleMetaData option"
  wl_sha1 :: "string option"

definition blacklists :: "string list" where
  "blacklists =
     [''.json'',
      ''.bmp'', ''.gif'', ''.ico'', ''.jpeg'', ''.jpg'', ''.png'', ''.svg'', ''.tiff'',
      ''.tif'', ''.webp'',
      ''.avi'', ''.mp4'', ''.mpeg'', ''.mpg'', ''.ogv'', ''.webm'', ''.3gp'', ''.3g2'',
      ''.aac'', ''.midi'', ''.mid'', ''.mp3'', ''.oga'', ''.wav'', ''.3gp'', ''.3g2'',
      ''.eot'', ''.otf'', ''.ttf'', ''.woff'', ''.woff2'']"

text \<open>
  \<^verbatim>\<open>filePath.slice(filePath.lastIndexOf("."))\<close>: from the last dot on; without a dot
  \<^verbatim>\<open>lastIndexOf\<close> is \<open>-1\<close> and the slice is the last character.
\<close>

definition sliceFromLastDot :: "string \<Rightarrow> string" where
  "sliceFromLastDot filePath =
     (if CHR ''.'' \<in> set filePath
      then CHR ''.'' # rev (takeWhile (\<lambda>c. c \<noteq> CHR ''.'') (rev filePath))
      else drop (length filePath - 1) filePath)"

definition loadHasteImpl ::
  "WorkerEnv \<Rightarrow> WorkerGlobals \<Rightarrow> WorkerMessage \<Rightarrow> string + WorkerGlobals" where
  "loadHasteImpl env globals data =
     (case msg_hasteImplModulePath data of
        None \<Rightarrow> Inr globals
      | Some modulePath \<Rightarrow>
          if modulePath \<noteq> [] \<and> Some modulePath \<noteq> wg_hasteImplModulePath globals then
            (if wg_hasteImpl globals \<noteq> None
             then Inl ''jest-haste-map: hasteImplModulePath changed''
             else Inr \<lparr>wg_hasteImpl = Some (env_require env modulePath),
                       wg_hasteImplModulePath = Some modulePath\<rparr>)
          else Inr globals)"

definition noLocals :: WorkerLocals where
  "noLocals =
     \<lparr>wl_dependencies = None, wl_id = None, wl_module = None, wl_sha1 = None\<rparr>"

definition packageJsonLocals :: "WorkerEnv \<Rightarrow> WorkerMessage \<Rightarrow> string + WorkerLocals" where
  "packageJsonLocals env data =
     (let filePath = msg_filePath data;
          failed = (\<lambda>message. Inl (''Cannot parse '' @ filePath @ '' as JSON: '' @ message))
      in case env_readFileSync env filePath of
           Inl message \<Rightarrow> failed message
         | Inr content \<Rightarrow>
            (case env_JSON_parse env content of
               Inl message \<Rightarrow> failed message
             | Inr fileData \<Rightarrow>
                (case getName fileData of
                   Inl message \<Rightarrow> failed message
                 | Inr None \<Rightarrow> Inr noLocals
                 | Inr (Some name) \<Rightarrow>
                     if truthy name then
                       Inr (noLocals
                         \<lparr>wl_id := Some name,
                          wl_module :=
                            Some (env_relative env (msg_rootDir data) filePath, H_PACKAGE)\<rparr>)
                     else Inr noLocals)))"

definition moduleLocals ::
  "WorkerEnv \<Rightarrow> WorkerGlobals \<Rightarrow> WorkerMessage \<Rightarrow> string + WorkerLocals" where
  "moduleLocals env globals data =
     (let filePath = msg_filePath data;
          withId =
            (case wg_hasteImpl globals of
               None \<Rightarrow> noLocals
             | Some hasteImpl \<Rightarrow>
                 noLocals \<lparr>wl_id := map_option JString (hasteImpl filePath)\<rparr>)
      in if msg_computeDependencies data then
           (case env_readFileSync env filePath of
              Inl message \<Rightarrow> Inl message
            | Inr content \<Rightarrow>
               (case env_extractor env
                       (case msg_dependencyExtractor data of
                          None \<Rightarrow> None
                        | Some e \<Rightarrow> if e = [] then None else Some e) of
                  Inl message \<Rightarrow> Inl message
                | Inr extract \<Rightarrow>
                    Inr (withId \<lparr>wl_dependencies := Some (extract content filePath)\<rparr>)))
         else Inr withId)"

text \<open>
  \<open>workerLocals\<close> follows the body of \<^verbatim>\<open>worker\<close> to its last statement and gives the
  local variables there. The body ends without a \<^verbatim>\<open>return\<close>, so the promise that
  \<^verbatim>\<open>worker\<close> returns resolves to \<^verbatim>\<open>undefined\<close>: \<open>worker\<close> yields \<^term>\<open>None\<close>
  where the body completes, and the error where it throws. Both also give the
  module-level variables as the call leaves them.
\<close>

definition workerLocals ::
  "WorkerEnv \<Rightarrow> WorkerGlobals \<Rightarrow> WorkerMessage \<Rightarrow> (string + WorkerLocals) \<times> WorkerGlobals" where
  "workerLocals env globals0 data =
     (case loadHasteImpl env globals0 data of
        Inl message \<Rightarrow> (Inl message, globals0)
      | Inr globals \<Rightarrow>
          (if endsWith (msg_filePath data) PACKAGE_JSON
           then packageJsonLocals env data
           else if sliceFromLastDot (msg_filePath data) \<notin> set blacklists
           then moduleLocals env globals data
           else Inr noLocals,
           globals))"

definition worker ::
  "WorkerEnv \<Rightarrow> WorkerGlobals \<Rightarrow> WorkerMessage
     \<Rightarrow> (string + WorkerLocals option) \<times> WorkerGlobals" where
  "worker env globals0 data =
     (case workerLocals env globals0 data of
        (Inl message, globals) \<Rightarrow> (Inl message, globals)
      | (Inr locals, globals) \<Rightarrow> (Inr None, globals))"

section \<open>Vocabulary of the properties\<close>

text \<open>
  The relative paths that a list of answers reports as existing, computed as the merge
  loop computes the path of a response file.
\<close>

definition responsePath ::
  "(string \<Rightarrow> string \<Rightarrow> string) \<Rightarrow> string \<Rightarrow> string \<Rightarrow> WatchmanFile \<Rightarrow> string" where
  "responsePath relative rootDir watchRoot fileData =
     relative rootDir
       (normalizePathSep watchRoot @ path_sep @ normalizePathSep (wf_name fileData))"

definition existingPaths ::
  "(string \<Rightarrow> string \<Rightarrow> string) \<Rightarrow> string
     \<Rightarrow> (string \<times> WatchmanQueryResponse) list \<Rightarrow> string list" where
  "existingPaths relative rootDir results =
     concat (map (\<lambda>(watchRoot, response).
                    map (responsePath relative rootDir watchRoot)
                      (filter wf_exists (qr_files response)))
               results)"

text \<open>The relative paths that the answers report as not existing.\<close>

definition nonExistingPaths ::
  "(string \<Rightarrow> string \<Rightarrow> string) \<Rightarrow> string
     \<Rightarrow> (string \<times> WatchmanQueryResponse) list \<Rightarrow> string list" where
  "nonExistingPaths relative rootDir results =
     concat (map (\<lambda>(watchRoot, response).
                    map (responsePath relative rootDir watchRoot)
                      (filter (\<lambda>fileData. \<not> wf_exists fileData) (qr_files response)))
               results)"

text \<open>
  Whether some answer to a query that is not a source-control query reports a fresh
  instance.
\<close>

definition reportsFresh ::
  "(string \<Rightarrow> string \<Rightarrow> string) \<Rightarrow> string \<Rightarrow> WatchmanClocks
     \<Rightarrow> (string \<times> WatchmanQueryResponse) list \<Rightarrow> bool" where
  "reportsFresh relative rootDir clocks results =
     list_ex (\<lambda>(root, response).
                \<not> isSourceControlQuery (map_of clocks (relative rootDir root))
                \<and> qr_is_fresh_instance response)
       results"

text \<open>
  A SHA-1 digest in hexadecimal, as the specification words it: forty characters, each
  a hexadecimal digit. The crawler's own test is \<^const>\<open>validSha1hex\<close>.
\<close>

definition isHexDigit :: "char \<Rightarrow> bool" where
  "isHexDigit c = (c \<in> set ''0123456789abcdefABCDEF'')"

definition isSha1Hex :: "string \<Rightarrow> bool" where
  "isSha1Hex s = (length s = 40 \<and> list_all isHexDigit s)"

section \<open>Sample inputs\<close>

text \<open>
  A stand-in for \<^verbatim>\<open>path.relative\<close> that is right for a path below the root directory:
  it drops the root and the separator after it.
\<close>

definition relativeBelow :: "string \<Rightarrow> string \<Rightarrow> string" where
  "relativeBelow rootDir filePath =
     (if take (length rootDir + 1) filePath = rootDir @ path_sep
      then drop (length rootDir + 1) filePath
      else if filePath = rootDir then [] else filePath)"

definition sampleMeta :: "string \<Rightarrow> int \<Rightarrow> FileMetaData" where
  "sampleMeta ident mtime =
     \<lparr>fm_id = ident, fm_mtime = mtime, fm_size = 10, fm_visited = 1,
      fm_dependencies = [], fm_sha1 = None\<rparr>"

definition sampleFile :: "string \<Rightarrow> bool \<Rightarrow> int \<Rightarrow> WatchmanFile" where
  "sampleFile name present mtime =
     \<lparr>wf_name = name, wf_exists = present, wf_mtime_ms = mtime, wf_size = 10,
      wf_sha1hex = Sha1Undefined\<rparr>"

definition sampleResponse :: "bool \<Rightarrow> WatchmanFile list \<Rightarrow> WatchmanQueryResponse" where
  "sampleResponse fresh fs =
     \<lparr>qr_is_fresh_instance = fresh, qr_clock = ResponseClockString ''c:1:2'',
      qr_files = fs\<rparr>"

definition sampleIndex :: "FileData \<Rightarrow> ModuleMapData \<Rightarrow> DuplicatesIndex \<Rightarrow> InternalHasteMap" where
  "sampleIndex fs m d =
     \<lparr>hm_clocks = [], hm_duplicates = d, hm_files = fs, hm_map = m, hm_mocks = []\<rparr>"

text \<open>
  A platform in which \<^verbatim>\<open>/r/package.json\<close> holds \<^verbatim>\<open>{"name":"pkg"}\<close> and no other file
  can be read.
\<close>

definition sampleEnv :: WorkerEnv where
  "sampleEnv =
     \<lparr>env_readFileSync =
        (\<lambda>p. if p = ''/r/package.json'' then Inr ''{\"name\":\"pkg\"}''
             else Inl ''ENOENT: no such file or directory''),
      env_JSON_parse =
        (\<lambda>text. if text = ''{\"name\":\"pkg\"}''
                then Inr (JObject [(''name'', JString ''pkg'')])
                else Inl ''Unexpected token''),
      env_relative = relativeBelow,
      env_require = (\<lambda>modulePath filePath. None),
      env_extractor = (\<lambda>extractorPath. Inr (\<lambda>content filePath. []))\<rparr>"

definition sampleMessage :: "string \<Rightarrow> WorkerMessage" where
  "sampleMessage filePath =
     \<lparr>msg_computeDependencies = False, msg_computeSha1 = False,
      msg_dependencyExtractor = None, msg_rootDir = ''/r'', msg_filePath = filePath,
      msg_hasteImplModulePath = None, msg_retainAllFiles = None\<rparr>"

definition noGlobals :: WorkerGlobals where
  "noGlobals = \<lparr>wg_hasteImpl = None, wg_hasteImplModulePath = None\<rparr>"

section \<open>Properties of the duplicate reconciler\<close>

lemma distinct_two_delete:
  assumes "distinct (map fst dups)" "set dups = {(a, ka), (b, kb)}" "a \<noteq> b"
  shows "AList.delete a dups = [(b, kb)]"
proof -
  have d: "distinct (AList.delete a dups)"
    using assms(1) by (metis distinct_delete distinct_map)
  have s: "set (AList.delete a dups) = {(b, kb)}"
    using assms by (auto simp: AList.delete_eq)
  have "length (AList.delete a dups) = 1"
    using d s distinct_card by fastforce
  then obtain x where "AList.delete a dups = [x]"
    by (cases "AList.delete a dups") auto
  with s show ?thesis by simp
qed

lemma only_key_delete:
  assumes "map fst dbp = [k]"
  shows "AList.delete k (AList.update k v dbp) = []"
  using assms by (cases dbp) (auto simp: AList.delete_eq)

text \<open>Whatever its arguments, \<^verbatim>\<open>setModule\<close> leaves the duplicates index as it was.\<close>

lemma setModule_duplicates_unchanged:
  "fst (snd (setModule map0 duplicates0 ident module)) = duplicates0"
  by (simp add: setModule_def Let_def split: option.splits)

text \<open>
  Claim C1, evaluated. \<^verbatim>\<open>setModule\<close> meets a genuine collision: \<^verbatim>\<open>Foo\<close> is held by
  \<^verbatim>\<open>a.js\<close> on the generic platform and \<^verbatim>\<open>c.js\<close> claims it too. The generic entry is
  removed and the warning is printed. But the id stays in the module map with an empty
  per-platform map, because the test after the deletion is for a length of one, and it
  is removed when exactly one other platform is left; and the duplicates index comes
  back empty, because the function ends before anything is stored in it.
\<close>

theorem setModule_collision_evaluated:
  "setModule [(''Foo'', [(''g'', (''a.js'', 0))])] [] ''Foo'' (''c.js'', 0)
     = ([(''Foo'', [])], [], [collisionWarning ''Foo'' ''a.js'' ''c.js''])
   \<and> setModule [(''Foo'', [(''g'', (''a.js'', 0)), (''native'', (''n.js'', 0))])] []
         ''Foo'' (''c.js'', 0)
     = ([], [], [collisionWarning ''Foo'' ''a.js'' ''c.js''])"
  by (simp add: setModule_def H_GENERIC_PLATFORM_def js_size_def)

text \<open>
  Claim C2, amended. In a state where the duplicates of an id on the generic platform
  are exactly the two files A and B, where the generic platform is the only platform
  with duplicates of that id, and where the module map has no entry for the id,
  \<^verbatim>\<open>_recoverDuplicates\<close> for the removal of A makes the module map send the id to the
  generic platform alone, with B's path and kind, and removes the id from the
  duplicates index.
\<close>

theorem recoverDuplicates_promotes_survivor:
  assumes dbp: "map_of (hm_duplicates hasteMap) moduleName = Some dupsByPlatform"
      and only_g: "map fst dupsByPlatform = [H_GENERIC_PLATFORM]"
      and dups: "map_of dupsByPlatform H_GENERIC_PLATFORM = Some dups"
      and dist: "distinct (map fst dups)"
      and two: "set dups = {(pathA, kindA), (pathB, kindB)}"
      and neq: "pathA \<noteq> pathB"
      and unset: "map_of (hm_map hasteMap) moduleName = None"
  shows "map_of (hm_map (recoverDuplicates hasteMap pathA moduleName)) moduleName
           = Some [(H_GENERIC_PLATFORM, (pathB, kindB))]
         \<and> map_of (hm_duplicates (recoverDuplicates hasteMap pathA moduleName)) moduleName
           = None"
proof -
  have del: "AList.delete pathA dups = [(pathB, kindB)]"
    using dist two neq by (rule distinct_two_delete)
  have empty: "AList.delete H_GENERIC_PLATFORM
                 (AList.update H_GENERIC_PLATFORM [(pathB, kindB)] dupsByPlatform) = []"
    using only_g by (rule only_key_delete)
  show ?thesis
    using dbp dups unset del empty
    by (simp add: recoverDuplicates_def Let_def js_size_def update_conv' delete_conv')
qed

text \<open>The amended claim at a concrete state: \<^verbatim>\<open>c.js\<close> is removed, \<^verbatim>\<open>a.js\<close> is promoted.\<close>

theorem recoverDuplicates_promotes_survivor_witness:
  "map_of (hm_map (recoverDuplicates
       (sampleIndex [] [] [(''Foo'', [(''g'', [(''a.js'', 0), (''c.js'', 0)])])])
       ''c.js'' ''Foo'')) ''Foo'' = Some [(''g'', (''a.js'', 0))]
   \<and> map_of (hm_duplicates (recoverDuplicates
       (sampleIndex [] [] [(''Foo'', [(''g'', [(''a.js'', 0), (''c.js'', 0)])])])
       ''c.js'' ''Foo'')) ''Foo'' = None"
  using recoverDuplicates_promotes_survivor
    [of "sampleIndex [] [] [(''Foo'', [(''g'', [(''a.js'', 0), (''c.js'', 0)])])]"
        "''Foo''" "[(''g'', [(''a.js'', 0), (''c.js'', 0)])]"
        "[(''a.js'', 0), (''c.js'', 0)]" "''c.js''" 0 "''a.js''" 0]
  by (simp add: sampleIndex_def H_GENERIC_PLATFORM_def insert_commute)

text \<open>
  The claim as written does not hold: when the id has duplicates on a second platform
  as well, the generic platform's two contenders are resolved but the id stays in the
  duplicates index, which the guard on \<^verbatim>\<open>dupsByPlatform.size\<close> in the source provides
  for.
\<close>

theorem recoverDuplicates_other_platform_counterexample:
  "map_of (hm_map (sampleIndex [] []
       [(''Foo'', [(''g'', [(''a.js'', 0), (''c.js'', 0)]),
                   (''native'', [(''x.js'', 0), (''y.js'', 0)])])])) ''Foo'' = None
   \<and> map_of (hm_duplicates (recoverDuplicates
       (sampleIndex [] []
          [(''Foo'', [(''g'', [(''a.js'', 0), (''c.js'', 0)]),
                      (''native'', [(''x.js'', 0), (''y.js'', 0)])])])
       ''c.js'' ''Foo'')) ''Foo''
     = Some [(''native'', [(''x.js'', 0), (''y.js'', 0)])]"
  by (simp add: recoverDuplicates_def sampleIndex_def H_GENERIC_PLATFORM_def js_size_def)

text \<open>
  Claim C10. When the duplicates of a module name on the generic platform consist of
  the removed path alone, \<^verbatim>\<open>_recoverDuplicates\<close> deletes the path and returns: the
  module name stays in the duplicates index, its generic platform now holds an empty
  map, and the module map is untouched. More generally, whenever the number of
  contenders left after the deletion is not one, the module map is untouched and the
  module name stays in the duplicates index with what is left.
\<close>

theorem recoverDuplicates_single_contender:
  assumes dbp: "map_of (hm_duplicates hasteMap) moduleName = Some dupsByPlatform"
      and dups: "map_of dupsByPlatform H_GENERIC_PLATFORM = Some dups"
  shows "(dups = [(relativeFilePath, kind)] \<longrightarrow>
            recoverDuplicates hasteMap relativeFilePath moduleName =
              hasteMap \<lparr>hm_duplicates :=
                 AList.update moduleName
                   (AList.update H_GENERIC_PLATFORM [] dupsByPlatform)
                   (hm_duplicates hasteMap)\<rparr>
            \<and> map_of (hm_duplicates (recoverDuplicates hasteMap relativeFilePath moduleName))
                moduleName = Some (AList.update H_GENERIC_PLATFORM [] dupsByPlatform)
            \<and> map_of (AList.update H_GENERIC_PLATFORM [] dupsByPlatform) H_GENERIC_PLATFORM
                = Some []
            \<and> hm_map (recoverDuplicates hasteMap relativeFilePath moduleName)
                = hm_map hasteMap)
         \<and> (js_size (AList.delete relativeFilePath dups) \<noteq> 1 \<longrightarrow>
              hm_map (recoverDuplicates hasteMap relativeFilePath moduleName) = hm_map hasteMap
              \<and> (\<exists>d. map_of (hm_duplicates (recoverDuplicates hasteMap relativeFilePath moduleName))
                     moduleName = Some d
                   \<and> map_of d H_GENERIC_PLATFORM = Some (AList.delete relativeFilePath dups)))"
  using dbp dups
  by (simp add: recoverDuplicates_def Let_def js_size_def update_conv')

theorem recoverDuplicates_single_contender_witness:
  "recoverDuplicates (sampleIndex [] [] [(''Foo'', [(''g'', [(''c.js'', 0)])])]) ''c.js'' ''Foo''
     = sampleIndex [] [] [(''Foo'', [(''g'', [])])]
   \<and> js_size (AList.delete ''c.js'' [(''c.js'', 0::nat)]) \<noteq> 1"
  using recoverDuplicates_single_contender
    [of "sampleIndex [] [] [(''Foo'', [(''g'', [(''c.js'', 0)])])]"
        "''Foo''" "[(''g'', [(''c.js'', 0)])]" "[(''c.js'', 0)]" "''c.js''" 0]
  by (simp add: sampleIndex_def H_GENERIC_PLATFORM_def js_size_def)

section \<open>Properties of the builder\<close>

lemma recoverRemoved_Nil: "recoverRemoved h [] = h"
  by (simp add: recoverRemoved_def)

text \<open>
  Claim C3. If the changed-file set is absent or the removed-file set is not empty,
  \<^verbatim>\<open>_buildHasteMap\<close> works with a new empty \<^verbatim>\<open>map\<close> and \<^verbatim>\<open>mocks\<close> and takes all of
  \<^verbatim>\<open>hasteMap.files\<close> as the files to process; otherwise it works with the \<^verbatim>\<open>map\<close> and
  \<^verbatim>\<open>mocks\<close> of the haste map it was given and takes the changed files.
\<close>

theorem buildHasteMap_selection:
  "(cr_changedFiles data = None \<or> js_size (cr_removedFiles data) > 0 \<longrightarrow>
      bl_map (buildHasteMap data) = []
      \<and> bl_mocks (buildHasteMap data) = []
      \<and> bl_filesToProcess (buildHasteMap data) = hm_files (cr_hasteMap data))
   \<and> (\<forall>changed. cr_changedFiles data = Some changed \<and> js_size (cr_removedFiles data) = 0 \<longrightarrow>
      bl_map (buildHasteMap data) = hm_map (cr_hasteMap data)
      \<and> bl_mocks (buildHasteMap data) = hm_mocks (cr_hasteMap data)
      \<and> bl_filesToProcess (buildHasteMap data) = changed)"
  by (auto simp: buildHasteMap_def Let_def js_size_def recoverRemoved_Nil split: option.splits)

text \<open>Both branches at concrete inputs.\<close>

theorem buildHasteMap_selection_witness:
  "bl_map (buildHasteMap
      \<lparr>cr_changedFiles = None,
       cr_hasteMap = sampleIndex [(''a.js'', sampleMeta ''Foo'' 1)]
                       [(''Foo'', [(''g'', (''a.js'', 0))])] [],
       cr_removedFiles = []\<rparr>) = []
   \<and> bl_filesToProcess (buildHasteMap
      \<lparr>cr_changedFiles = None,
       cr_hasteMap = sampleIndex [(''a.js'', sampleMeta ''Foo'' 1)]
                       [(''Foo'', [(''g'', (''a.js'', 0))])] [],
       cr_removedFiles = []\<rparr>) = [(''a.js'', sampleMeta ''Foo'' 1)]
   \<and> bl_map (buildHasteMap
      \<lparr>cr_changedFiles = Some [(''b.js'', sampleMeta [] 2)],
       cr_hasteMap = sampleIndex [(''a.js'', sampleMeta ''Foo'' 1), (''b.js'', sampleMeta [] 2)]
                       [(''Foo'', [(''g'', (''a.js'', 0))])] [],
       cr_removedFiles = []\<rparr>) = [(''Foo'', [(''g'', (''a.js'', 0))])]
   \<and> bl_filesToProcess (buildHasteMap
      \<lparr>cr_changedFiles = Some [(''b.js'', sampleMeta [] 2)],
       cr_hasteMap = sampleIndex [(''a.js'', sampleMeta ''Foo'' 1), (''b.js'', sampleMeta [] 2)]
                       [(''Foo'', [(''g'', (''a.js'', 0))])] [],
       cr_removedFiles = []\<rparr>) = [(''b.js'', sampleMeta [] 2)]"
  using buildHasteMap_selection
    [of "\<lparr>cr_changedFiles = None,
       cr_hasteMap = sampleIndex [(''a.js'', sampleMeta ''Foo'' 1)]
                       [(''Foo'', [(''g'', (''a.js'', 0))])] [],
       cr_removedFiles = []\<rparr>"]
    buildHasteMap_selection
    [of "\<lparr>cr_changedFiles = Some [(''b.js'', sampleMeta [] 2)],
       cr_hasteMap = sampleIndex [(''a.js'', sampleMeta ''Foo'' 1), (''b.js'', sampleMeta [] 2)]
                       [(''Foo'', [(''g'', (''a.js'', 0))])] [],
       cr_removedFiles = []\<rparr>"]
  by (simp add: js_size_def sampleIndex_def)

text \<open>
  Claim C8, evaluated. \<^verbatim>\<open>build()\<close> returns \<^verbatim>\<open>undefined\<close> on the first call and on
  the second: no haste index is produced by either.
\<close>

theorem build_returns_undefined:
  "snd (build this) = None \<and> snd (build (fst (build this))) = None"
  by (simp add: build_def)

text \<open>
  Claim C6, evaluated. A worker error whose code is \<^verbatim>\<open>ENOENT\<close> is thrown again by
  \<^verbatim>\<open>workerEror\<close>, whatever the files map and the path: the list of codes it recovers
  from spells the code \<^verbatim>\<open>ENONET\<close>.
\<close>

theorem workerEror_ENOENT_rethrown:
  "workerEror files relativeFilePath
     (ThrownObject \<lparr>err_message = ''ENOENT: no such file or directory'',
                    err_stack = ''Error: ENOENT'', err_code = Some ''ENOENT''\<rparr>)
   = Inl \<lparr>err_message = ''ENOENT: no such file or directory'',
          err_stack = ''Error: ENOENT'', err_code = Some ''ENOENT''\<rparr>"
  by (simp add: workerEror_def toErrorObject_def recoverableCodes_def)

text \<open>The other code of the claim is recovered from: the file is dropped.\<close>

lemma workerEror_EACCES_dropped:
  "workerEror files relativeFilePath
     (ThrownObject \<lparr>err_message = ''EACCES: permission denied'',
                    err_stack = ''Error: EACCES'', err_code = Some ''EACCES''\<rparr>)
   = Inr (AList.delete relativeFilePath files)"
  by (simp add: workerEror_def toErrorObject_def recoverableCodes_def)

section \<open>Properties of the file worker\<close>

text \<open>A call of \<^verbatim>\<open>worker\<close> that completes resolves to \<^verbatim>\<open>undefined\<close>.\<close>

lemma worker_resolves_undefined:
  "fst (worker env globals data) = Inr result \<Longrightarrow> result = None"
  by (auto simp: worker_def split: prod.splits sum.splits)

text \<open>
  Claim C7, evaluated. For \<^verbatim>\<open>/r/package.json\<close> with content \<^verbatim>\<open>{"name":"pkg"}\<close> the
  body of \<^verbatim>\<open>worker\<close> computes the id \<^verbatim>\<open>pkg\<close> and the module
  \<^verbatim>\<open>["package.json", H.PACKAGE]\<close> in its local variables, and the call resolves to
  \<^verbatim>\<open>undefined\<close>: the result carries neither.
\<close>

theorem worker_package_json_evaluated:
  "workerLocals sampleEnv noGlobals (sampleMessage ''/r/package.json'')
     = (Inr \<lparr>wl_dependencies = None, wl_id = Some (JString ''pkg''),
              wl_module = Some (''package.json'', H_PACKAGE), wl_sha1 = None\<rparr>,
        noGlobals)
   \<and> worker sampleEnv noGlobals (sampleMessage ''/r/package.json'') = (Inr None, noGlobals)"
  by (simp add: worker_def workerLocals_def loadHasteImpl_def packageJsonLocals_def
      sampleEnv_def sampleMessage_def noGlobals_def noLocals_def endsWith_def
      PACKAGE_JSON_def path_sep_def getName_def relativeBelow_def)

section \<open>Properties of the crawler\<close>

subsection \<open>Freshness and the changed files\<close>

lemma foldl_fresh:
  "foldl (\<lambda>isFresh (root, response).
              if \<not> isSourceControlQuery (map_of clocks (relative rootDir root))
              then isFresh \<or> qr_is_fresh_instance response
              else isFresh) acc results
   = (acc \<or> reportsFresh relative rootDir clocks results)"
  by (induction results arbitrary: acc) (auto simp: reportsFresh_def)

lemma queryIsFresh_iff:
  "queryIsFresh relative rootDir clocks results = reportsFresh relative rootDir clocks results"
  by (simp add: queryIsFresh_def foldl_fresh)

text \<open>
  Claim C9. A crawl whose commands succeed returns. If an answer to a query that is not
  a source-control query reports a fresh instance, the \<^verbatim>\<open>changedFiles\<close> of the result
  is \<^verbatim>\<open>undefined\<close>, whatever the merge has put into its changed-file map; if no such
  answer does, \<^verbatim>\<open>changedFiles\<close> is the changed-file map that the merge has built.
\<close>

theorem watchmanCrawl_changedFiles:
  "\<exists>r. watchmanCrawl relative rootDir data (Inr results) None = Inr r
     \<and> (reportsFresh relative rootDir (hm_clocks data) results \<longrightarrow> cr_changedFiles r = None)
     \<and> (\<not> reportsFresh relative rootDir (hm_clocks data) results \<longrightarrow>
          cr_changedFiles r =
            Some (cs_changedFiles (mergeResults relative rootDir False data results)))"
  by (simp add: watchmanCrawl_def Let_def queryIsFresh_iff)

text \<open>
  A fresh answer and an answer that is not fresh, each with one existing file: the merge
  records the file as changed in both crawls, and only the second returns the record.
\<close>

theorem watchmanCrawl_changedFiles_witness:
  "reportsFresh relativeBelow ''/r'' (hm_clocks (sampleIndex [] [] []))
     [(''/r'', sampleResponse True [sampleFile ''a.js'' True 2])]
   \<and> cs_changedFiles (mergeResults relativeBelow ''/r'' True (sampleIndex [] [] [])
        [(''/r'', sampleResponse True [sampleFile ''a.js'' True 2])]) \<noteq> []
   \<and> (\<exists>r. watchmanCrawl relativeBelow ''/r'' (sampleIndex [] [] [])
              (Inr [(''/r'', sampleResponse True [sampleFile ''a.js'' True 2])]) None = Inr r
          \<and> cr_changedFiles r = None)
   \<and> \<not> reportsFresh relativeBelow ''/r'' (hm_clocks (sampleIndex [] [] []))
     [(''/r'', sampleResponse False [sampleFile ''a.js'' True 2])]
   \<and> (\<exists>r. watchmanCrawl relativeBelow ''/r'' (sampleIndex [] [] [])
              (Inr [(''/r'', sampleResponse False [sampleFile ''a.js'' True 2])]) None = Inr r
          \<and> cr_changedFiles r =
              Some [(''a.js'', \<lparr>fm_id = [], fm_mtime = 2, fm_size = 10, fm_visited = 0,
                                fm_dependencies = [], fm_sha1 = None\<rparr>)])"
proof -
  have f: "reportsFresh relativeBelow ''/r'' (hm_clocks (sampleIndex [] [] []))
     [(''/r'', sampleResponse True [sampleFile ''a.js'' True 2])]"
    by (simp add: reportsFresh_def sampleIndex_def sampleResponse_def isSourceControlQuery_def)
  have n: "\<not> reportsFresh relativeBelow ''/r'' (hm_clocks (sampleIndex [] [] []))
     [(''/r'', sampleResponse False [sampleFile ''a.js'' True 2])]"
    by (simp add: reportsFresh_def sampleIndex_def sampleResponse_def isSourceControlQuery_def)
  have c: "cs_changedFiles (mergeResults relativeBelow ''/r'' False (sampleIndex [] [] [])
        [(''/r'', sampleResponse False [sampleFile ''a.js'' True 2])])
      = [(''a.js'', \<lparr>fm_id = [], fm_mtime = 2, fm_size = 10, fm_visited = 0,
                                fm_dependencies = [], fm_sha1 = None\<rparr>)]"
    by (simp add: mergeResults_def mergeResponse_def mergeFile_def initialCrawlState_def
        sampleIndex_def sampleResponse_def sampleFile_def normalizePathSep_def path_sep_def
        relativeBelow_def nextData_def validSha1hex_def Let_def)
  have c': "cs_changedFiles (mergeResults relativeBelow ''/r'' True (sampleIndex [] [] [])
        [(''/r'', sampleResponse True [sampleFile ''a.js'' True 2])]) \<noteq> []"
    by (simp add: mergeResults_def mergeResponse_def mergeFile_def initialCrawlState_def
        sampleIndex_def sampleResponse_def sampleFile_def normalizePathSep_def path_sep_def
        relativeBelow_def nextData_def validSha1hex_def Let_def)
  show ?thesis
    using f n c c'
      watchmanCrawl_changedFiles [of relativeBelow "''/r''" "sampleIndex [] [] []"
        "[(''/r'', sampleResponse True [sampleFile ''a.js'' True 2])]"]
      watchmanCrawl_changedFiles [of relativeBelow "''/r''" "sampleIndex [] [] []"
        "[(''/r'', sampleResponse False [sampleFile ''a.js'' True 2])]"]
    by simp
qed

subsection \<open>The removed files of a fresh crawl\<close>

lemma mergeFile_fresh_removed:
  assumes "cs_removedFiles st = filter (\<lambda>e. fst e \<notin> S) prev"
  shows "cs_removedFiles (mergeFile relative rootDir True prev (normalizePathSep watchRoot) st f)
         = filter (\<lambda>e. fst e \<notin> S \<union> set (map (responsePath relative rootDir watchRoot)
                                              (filter wf_exists [f]))) prev"
proof (cases "wf_exists f")
  case False
  then show ?thesis using assms
    by (simp add: mergeFile_def Let_def split: option.splits)
next
  case True
  let ?p = "responsePath relative rootDir watchRoot f"
  show ?thesis
  proof (cases "map_of prev ?p")
    case None
    then have "?p \<notin> fst ` set prev" by (simp add: map_of_eq_None_iff)
    then have "filter (\<lambda>e. fst e \<notin> S \<union> {?p}) prev = filter (\<lambda>e. fst e \<notin> S) prev"
      by (intro filter_cong) force+
    then show ?thesis using assms True None
      by (simp add: mergeFile_def Let_def responsePath_def path_sep_def)
  next
    case (Some e)
    have "AList.delete ?p (filter (\<lambda>e. fst e \<notin> S) prev)
          = filter (\<lambda>e. fst e \<notin> S \<union> {?p}) prev"
      by (auto simp: AList.delete_eq intro: filter_cong)
    then show ?thesis using assms True Some
      by (simp add: mergeFile_def Let_def responsePath_def path_sep_def)
  qed
qed

lemma mergeFiles_fresh_removed:
  assumes "cs_removedFiles st = filter (\<lambda>e. fst e \<notin> S) prev"
  shows "cs_removedFiles
           (foldl (mergeFile relative rootDir True prev (normalizePathSep watchRoot)) st fs)
         = filter (\<lambda>e. fst e \<notin> S \<union> set (map (responsePath relative rootDir watchRoot)
                                              (filter wf_exists fs))) prev"
  using assms
proof (induction fs arbitrary: st S)
  case Nil
  then show ?case by simp
next
  case (Cons f fs)
  have step: "cs_removedFiles
                (mergeFile relative rootDir True prev (normalizePathSep watchRoot) st f)
              = filter (\<lambda>e. fst e \<notin> S \<union> set (map (responsePath relative rootDir watchRoot)
                                                   (filter wf_exists [f]))) prev"
    using Cons.prems by (rule mergeFile_fresh_removed)
  show ?case
    using Cons.IH [OF step] by (simp add: Un_assoc)
qed

lemma mergeResponse_fresh_removed:
  assumes "cs_removedFiles st = filter (\<lambda>e. fst e \<notin> S) prev"
  shows "cs_removedFiles (mergeResponse relative rootDir True prev st entry)
         = filter (\<lambda>e. fst e \<notin> S \<union> set (existingPaths relative rootDir [entry])) prev"
proof (cases entry)
  case (Pair watchRoot response)
  let ?st1 = "st \<lparr>cs_clocks :=
                     AList.update (relative rootDir (normalizePathSep watchRoot))
                       (ClockString (clockString (qr_clock response))) (cs_clocks st)\<rparr>"
  have "cs_removedFiles ?st1 = filter (\<lambda>e. fst e \<notin> S) prev"
    using assms by simp
  from mergeFiles_fresh_removed [OF this]
  show ?thesis using Pair
    by (simp add: mergeResponse_def Let_def existingPaths_def)
qed

lemma mergeResponses_fresh_removed:
  assumes "cs_removedFiles st = filter (\<lambda>e. fst e \<notin> S) prev"
  shows "cs_removedFiles (foldl (mergeResponse relative rootDir True prev) st results)
         = filter (\<lambda>e. fst e \<notin> S \<union> set (existingPaths relative rootDir results)) prev"
  using assms
proof (induction results arbitrary: st S)
  case Nil
  then show ?case by (simp add: existingPaths_def)
next
  case (Cons entry results)
  have step: "cs_removedFiles (mergeResponse relative rootDir True prev st entry)
         = filter (\<lambda>e. fst e \<notin> S \<union> set (existingPaths relative rootDir [entry])) prev"
    using Cons.prems by (rule mergeResponse_fresh_removed)
  show ?case
    using Cons.IH [OF step] by (simp add: existingPaths_def Un_assoc)
qed

text \<open>
  In a fresh crawl the files map is rebuilt from nothing: a response file that exists
  adds its path, and one that does not exist takes its path out if the previous index
  had it.
\<close>

lemma keys_delete: "fst ` set (AList.delete k al) = fst ` set al - {k}"
proof -
  have "set (map fst (AList.delete k al)) = set (map fst al) - {k}"
    by (simp only: delete_keys set_removeAll)
  then show ?thesis by simp
qed

lemma mergeFile_fresh_files_keys:
  "fst ` set (cs_files (mergeFile relative rootDir True prev (normalizePathSep watchRoot) st f))
   = (if wf_exists f
      then insert (responsePath relative rootDir watchRoot f) (fst ` set (cs_files st))
      else if map_of prev (responsePath relative rootDir watchRoot f) \<noteq> None
      then fst ` set (cs_files st) - {responsePath relative rootDir watchRoot f}
      else fst ` set (cs_files st))"
proof (cases "wf_exists f")
  case True
  then show ?thesis
    by (simp add: mergeFile_def Let_def responsePath_def path_sep_def dom_update)
next
  case False
  show ?thesis
  proof (cases "map_of prev (responsePath relative rootDir watchRoot f)")
    case None
    then show ?thesis using False
      by (simp add: mergeFile_def Let_def responsePath_def path_sep_def)
  next
    case (Some e)
    then show ?thesis using False
      by (simp add: mergeFile_def Let_def responsePath_def path_sep_def keys_delete)
  qed
qed

lemma mergeFiles_fresh_files_subset:
  "fst ` set (cs_files (foldl (mergeFile relative rootDir True prev (normalizePathSep watchRoot))
                          st fs))
   \<subseteq> fst ` set (cs_files st)
       \<union> set (map (responsePath relative rootDir watchRoot) (filter wf_exists fs))"
proof (induction fs arbitrary: st)
  case Nil
  then show ?case by simp
next
  case (Cons f fs)
  show ?case
    using Cons.IH [of "mergeFile relative rootDir True prev (normalizePathSep watchRoot) st f"]
    by (auto simp: mergeFile_fresh_files_keys split: if_splits)
qed

lemma mergeFiles_fresh_files_keys:
  assumes "\<forall>f \<in> set fs. \<not> wf_exists f \<longrightarrow>
             responsePath relative rootDir watchRoot f
               \<notin> fst ` set (cs_files st)
                   \<union> set (map (responsePath relative rootDir watchRoot) (filter wf_exists fs))"
  shows "fst ` set (cs_files (foldl (mergeFile relative rootDir True prev
                                      (normalizePathSep watchRoot)) st fs))
         = fst ` set (cs_files st)
             \<union> set (map (responsePath relative rootDir watchRoot) (filter wf_exists fs))"
  using assms
proof (induction fs arbitrary: st)
  case Nil
  then show ?case by simp
next
  case (Cons f fs)
  let ?st = "mergeFile relative rootDir True prev (normalizePathSep watchRoot) st f"
  let ?p = "responsePath relative rootDir watchRoot f"
  show ?case
  proof (cases "wf_exists f")
    case True
    then have k: "fst ` set (cs_files ?st) = insert ?p (fst ` set (cs_files st))"
      by (simp add: mergeFile_fresh_files_keys)
    have "\<forall>g \<in> set fs. \<not> wf_exists g \<longrightarrow>
             responsePath relative rootDir watchRoot g
               \<notin> fst ` set (cs_files ?st)
                   \<union> set (map (responsePath relative rootDir watchRoot) (filter wf_exists fs))"
      using Cons.prems True unfolding k by auto
    from Cons.IH [OF this] show ?thesis using True k by auto
  next
    case False
    then have "?p \<notin> fst ` set (cs_files st)"
      using Cons.prems by auto
    then have k: "fst ` set (cs_files ?st) = fst ` set (cs_files st)"
      using False by (simp add: mergeFile_fresh_files_keys)
    have "\<forall>g \<in> set fs. \<not> wf_exists g \<longrightarrow>
             responsePath relative rootDir watchRoot g
               \<notin> fst ` set (cs_files ?st)
                   \<union> set (map (responsePath relative rootDir watchRoot) (filter wf_exists fs))"
      using Cons.prems False unfolding k by auto
    from Cons.IH [OF this] show ?thesis using False k by auto
  qed
qed

lemma existingPaths_Cons:
  "existingPaths relative rootDir ((watchRoot, response) # results)
   = map (responsePath relative rootDir watchRoot) (filter wf_exists (qr_files response))
     @ existingPaths relative rootDir results"
  by (simp add: existingPaths_def)

lemma nonExistingPaths_Cons:
  "nonExistingPaths relative rootDir ((watchRoot, response) # results)
   = map (responsePath relative rootDir watchRoot)
       (filter (\<lambda>fileData. \<not> wf_exists fileData) (qr_files response))
     @ nonExistingPaths relative rootDir results"
  by (simp add: nonExistingPaths_def)

lemma mergeResponse_files:
  "cs_files (mergeResponse relative rootDir True prev st (watchRoot, response))
   = cs_files (foldl (mergeFile relative rootDir True prev (normalizePathSep watchRoot))
       (st \<lparr>cs_clocks := AList.update (relative rootDir (normalizePathSep watchRoot))
                            (ClockString (clockString (qr_clock response))) (cs_clocks st)\<rparr>)
       (qr_files response))"
  by (simp add: mergeResponse_def Let_def)

lemma mergeResponses_fresh_files_subset:
  "fst ` set (cs_files (foldl (mergeResponse relative rootDir True prev) st results))
   \<subseteq> fst ` set (cs_files st) \<union> set (existingPaths relative rootDir results)"
proof (induction results arbitrary: st)
  case Nil
  then show ?case by (simp add: existingPaths_def)
next
  case (Cons entry results)
  obtain watchRoot response where entry: "entry = (watchRoot, response)"
    by (cases entry)
  let ?st1 = "st \<lparr>cs_clocks := AList.update (relative rootDir (normalizePathSep watchRoot))
                            (ClockString (clockString (qr_clock response))) (cs_clocks st)\<rparr>"
  have inner: "fst ` set (cs_files (mergeResponse relative rootDir True prev st entry))
        \<subseteq> fst ` set (cs_files st)
            \<union> set (map (responsePath relative rootDir watchRoot)
                     (filter wf_exists (qr_files response)))"
    using mergeFiles_fresh_files_subset [of relative rootDir prev watchRoot ?st1 "qr_files response"]
    by (simp add: entry mergeResponse_files)
  show ?case
    using Cons.IH [of "mergeResponse relative rootDir True prev st entry"] inner
    by (auto simp: entry existingPaths_Cons)
qed

lemma mergeResponses_fresh_files_keys:
  assumes "set (nonExistingPaths relative rootDir results)
             \<inter> (fst ` set (cs_files st) \<union> set (existingPaths relative rootDir results)) = {}"
  shows "fst ` set (cs_files (foldl (mergeResponse relative rootDir True prev) st results))
         = fst ` set (cs_files st) \<union> set (existingPaths relative rootDir results)"
  using assms
proof (induction results arbitrary: st)
  case Nil
  then show ?case by (simp add: existingPaths_def)
next
  case (Cons entry results)
  obtain watchRoot response where entry: "entry = (watchRoot, response)"
    by (cases entry)
  let ?st1 = "st \<lparr>cs_clocks := AList.update (relative rootDir (normalizePathSep watchRoot))
                            (ClockString (clockString (qr_clock response))) (cs_clocks st)\<rparr>"
  let ?st2 = "mergeResponse relative rootDir True prev st entry"
  have pre: "\<forall>f \<in> set (qr_files response). \<not> wf_exists f \<longrightarrow>
             responsePath relative rootDir watchRoot f
               \<notin> fst ` set (cs_files ?st1)
                   \<union> set (map (responsePath relative rootDir watchRoot)
                            (filter wf_exists (qr_files response)))"
    using Cons.prems by (auto simp: entry existingPaths_Cons nonExistingPaths_Cons)
  have inner: "fst ` set (cs_files ?st2)
        = fst ` set (cs_files st)
            \<union> set (map (responsePath relative rootDir watchRoot)
                     (filter wf_exists (qr_files response)))"
    using mergeFiles_fresh_files_keys [OF pre, of prev]
    by (simp add: entry mergeResponse_files)
  have "set (nonExistingPaths relative rootDir results)
             \<inter> (fst ` set (cs_files ?st2) \<union> set (existingPaths relative rootDir results)) = {}"
    using Cons.prems unfolding inner
    by (auto simp: entry existingPaths_Cons nonExistingPaths_Cons)
  from Cons.IH [OF this] show ?case
    using inner by (auto simp: entry existingPaths_Cons)
qed

text \<open>
  Claim C4. In a crawl in which an answer to a query that is not a source-control query
  reports a fresh instance, the removed-file map starts as the previous files map and
  the files map starts empty, and every previously tracked path that an answer reports
  as existing is deleted from the removed-file map. So the crawl returns as
  \<^verbatim>\<open>removedFiles\<close> exactly the entries of the previous files map whose path no response
  file reports as existing, and the files map it returns holds no path but those
  reported as existing. When no path is reported both as existing and as not existing,
  the returned files map holds exactly the paths reported as existing, and
  \<^verbatim>\<open>removedFiles\<close> is exactly the previous entries that are absent from the returned
  files map, which are the previous entries whose path is absent from the answers or
  reported as not existing.
\<close>

theorem watchmanCrawl_fresh_removedFiles:
  assumes fresh: "reportsFresh relative rootDir (hm_clocks data) results"
  shows "\<exists>r. watchmanCrawl relative rootDir data (Inr results) None = Inr r
           \<and> cr_removedFiles r =
               filter (\<lambda>e. fst e \<notin> set (existingPaths relative rootDir results))
                 (hm_files data)
           \<and> fst ` set (hm_files (cr_hasteMap r))
               \<subseteq> set (existingPaths relative rootDir results)
           \<and> (set (existingPaths relative rootDir results)
                 \<inter> set (nonExistingPaths relative rootDir results) = {} \<longrightarrow>
                fst ` set (hm_files (cr_hasteMap r))
                  = set (existingPaths relative rootDir results)
                \<and> cr_removedFiles r =
                    filter (\<lambda>e. fst e \<notin> fst ` set (hm_files (cr_hasteMap r)))
                      (hm_files data)
                \<and> cr_removedFiles r =
                    filter (\<lambda>e. fst e \<notin> set (existingPaths relative rootDir results)
                                        \<union> set (nonExistingPaths relative rootDir results)
                               \<or> fst e \<in> set (nonExistingPaths relative rootDir results))
                      (hm_files data))"
proof -
  let ?E = "set (existingPaths relative rootDir results)"
  let ?N = "set (nonExistingPaths relative rootDir results)"
  let ?st = "mergeResults relative rootDir True data results"
  have init: "cs_removedFiles (initialCrawlState True data)
              = filter (\<lambda>e. fst e \<notin> {}) (hm_files data)"
    by (simp add: initialCrawlState_def)
  have removed: "cs_removedFiles ?st = filter (\<lambda>e. fst e \<notin> ?E) (hm_files data)"
    unfolding mergeResults_def
    using mergeResponses_fresh_removed [OF init] by simp
  have subset: "fst ` set (cs_files ?st) \<subseteq> ?E"
    unfolding mergeResults_def
    using mergeResponses_fresh_files_subset
      [of relative rootDir "hm_files data" "initialCrawlState True data" results]
    by (simp add: initialCrawlState_def)
  have keys: "fst ` set (cs_files ?st) = ?E" if "?E \<inter> ?N = {}"
  proof -
    have "?N \<inter> (fst ` set (cs_files (initialCrawlState True data)) \<union> ?E) = {}"
      using that by (auto simp: initialCrawlState_def)
    from mergeResponses_fresh_files_keys [OF this, of "hm_files data"]
    show ?thesis by (simp add: mergeResults_def initialCrawlState_def)
  qed
  have literal: "filter (\<lambda>e. fst e \<notin> ?E \<union> ?N \<or> fst e \<in> ?N) (hm_files data)
                 = filter (\<lambda>e. fst e \<notin> ?E) (hm_files data)" if "?E \<inter> ?N = {}"
    using that by (intro filter_cong) auto
  show ?thesis
    using fresh removed subset keys literal
    by (simp add: watchmanCrawl_def Let_def queryIsFresh_iff)
qed

text \<open>
  Four files were indexed; the fresh answer lists two of them as existing and a third
  as not existing, and says nothing of the fourth. The third and the fourth are what
  the crawl returns as removed, and the first two are the new files map.
\<close>

theorem watchmanCrawl_fresh_removedFiles_witness:
  "reportsFresh relativeBelow ''/r''
     (hm_clocks (sampleIndex [(''a.js'', sampleMeta ''Foo'' 1), (''b.js'', sampleMeta [] 1),
                              (''c.js'', sampleMeta [] 1), (''d.js'', sampleMeta [] 1)] [] []))
     [(''/r'', sampleResponse True
         [sampleFile ''a.js'' True 2, sampleFile ''b.js'' True 1, sampleFile ''c.js'' False 3])]
   \<and> set (existingPaths relativeBelow ''/r''
        [(''/r'', sampleResponse True
           [sampleFile ''a.js'' True 2, sampleFile ''b.js'' True 1, sampleFile ''c.js'' False 3])])
       \<inter> set (nonExistingPaths relativeBelow ''/r''
        [(''/r'', sampleResponse True
           [sampleFile ''a.js'' True 2, sampleFile ''b.js'' True 1, sampleFile ''c.js'' False 3])])
       = {}
   \<and> (\<exists>r. watchmanCrawl relativeBelow ''/r''
              (sampleIndex [(''a.js'', sampleMeta ''Foo'' 1), (''b.js'', sampleMeta [] 1),
                            (''c.js'', sampleMeta [] 1), (''d.js'', sampleMeta [] 1)] [] [])
              (Inr [(''/r'', sampleResponse True
                       [sampleFile ''a.js'' True 2, sampleFile ''b.js'' True 1,
                        sampleFile ''c.js'' False 3])]) None = Inr r
          \<and> cr_removedFiles r = [(''c.js'', sampleMeta [] 1), (''d.js'', sampleMeta [] 1)]
          \<and> fst ` set (hm_files (cr_hasteMap r)) = {''a.js'', ''b.js''})"
proof -
  have f: "reportsFresh relativeBelow ''/r''
     (hm_clocks (sampleIndex [(''a.js'', sampleMeta ''Foo'' 1), (''b.js'', sampleMeta [] 1),
                              (''c.js'', sampleMeta [] 1), (''d.js'', sampleMeta [] 1)] [] []))
     [(''/r'', sampleResponse True
         [sampleFile ''a.js'' True 2, sampleFile ''b.js'' True 1, sampleFile ''c.js'' False 3])]"
    by (simp add: reportsFresh_def sampleIndex_def sampleResponse_def isSourceControlQuery_def)
  have e: "existingPaths relativeBelow ''/r''
      [(''/r'', sampleResponse True
         [sampleFile ''a.js'' True 2, sampleFile ''b.js'' True 1, sampleFile ''c.js'' False 3])]
      = [''a.js'', ''b.js'']"
    by (simp add: existingPaths_def responsePath_def sampleResponse_def sampleFile_def
        normalizePathSep_def path_sep_def relativeBelow_def)
  have n: "nonExistingPaths relativeBelow ''/r''
      [(''/r'', sampleResponse True
         [sampleFile ''a.js'' True 2, sampleFile ''b.js'' True 1, sampleFile ''c.js'' False 3])]
      = [''c.js'']"
    by (simp add: nonExistingPaths_def responsePath_def sampleResponse_def sampleFile_def
        normalizePathSep_def path_sep_def relativeBelow_def)
  show ?thesis
    using f watchmanCrawl_fresh_removedFiles [OF f]
    by (auto simp: e n sampleIndex_def)
qed

subsection \<open>The entry recorded for an existing file\<close>

text \<open>
  Claim C5, amended. For a response file that exists, the merge records one entry under
  the file's relative path, in the files map and in the changed-file map alike. If
  there is an entry for the path already, with the same mtime, the entry recorded is
  that entry. If there is an entry with another mtime, and the response supplies a
  sha1 that is a string of forty characters and equals the sha1 of the entry, the entry
  recorded is that entry with the new mtime. In every other case it is the pristine
  entry: empty haste id, the new mtime and size, not visited, no dependencies, and the
  supplied sha1 if it is a string of forty characters, none otherwise. The entry that
  is there already is looked up in the previous index in a fresh crawl, and in the
  files map as merged so far otherwise.
\<close>

theorem mergeFile_records_existing_file:
  assumes present: "wf_exists fileData"
  shows "\<exists>recorded.
           map_of (cs_files (mergeFile relative rootDir isFresh previousFiles
                     (normalizePathSep watchRoot) st fileData))
             (responsePath relative rootDir watchRoot fileData) = Some recorded
         \<and> map_of (cs_changedFiles (mergeFile relative rootDir isFresh previousFiles
                     (normalizePathSep watchRoot) st fileData))
             (responsePath relative rootDir watchRoot fileData) = Some recorded
         \<and> (\<forall>prev. map_of (if isFresh then previousFiles else cs_files st)
                      (responsePath relative rootDir watchRoot fileData) = Some prev
                    \<and> fm_mtime prev = wf_mtime_ms fileData
               \<longrightarrow> recorded = prev)
         \<and> (\<forall>prev s. map_of (if isFresh then previousFiles else cs_files st)
                      (responsePath relative rootDir watchRoot fileData) = Some prev
                    \<and> fm_mtime prev \<noteq> wf_mtime_ms fileData
                    \<and> wf_sha1hex fileData = Sha1String s \<and> length s = 40
                    \<and> fm_sha1 prev = Some s
               \<longrightarrow> recorded = prev \<lparr>fm_mtime := wf_mtime_ms fileData\<rparr>)
         \<and> (\<not> (\<exists>prev. map_of (if isFresh then previousFiles else cs_files st)
                        (responsePath relative rootDir watchRoot fileData) = Some prev
                      \<and> (fm_mtime prev = wf_mtime_ms fileData
                         \<or> (\<exists>s. wf_sha1hex fileData = Sha1String s \<and> length s = 40
                                \<and> fm_sha1 prev = Some s)))
               \<longrightarrow> recorded =
                     \<lparr>fm_id = [], fm_mtime = wf_mtime_ms fileData, fm_size = wf_size fileData,
                      fm_visited = 0, fm_dependencies = [],
                      fm_sha1 = (case wf_sha1hex fileData of
                                   Sha1String s \<Rightarrow> if length s = 40 then Some s else None
                                 | _ \<Rightarrow> None)\<rparr>)"
  using present
  by (auto simp: mergeFile_def Let_def responsePath_def path_sep_def update_conv'
      nextData_def validSha1hex_def split: option.splits Sha1Field.splits)

text \<open>A file whose mtime has moved and whose sha1 is the one on record.\<close>

theorem mergeFile_records_existing_file_witness:
  "wf_exists ((sampleFile ''a.js'' True 7) \<lparr>wf_sha1hex := Sha1String (replicate 40 CHR ''a'')\<rparr>)
   \<and> map_of (cs_files (mergeFile relativeBelow ''/r'' False []
                (normalizePathSep ''/r'')
                (initialCrawlState False
                   (sampleIndex [(''a.js'', (sampleMeta ''Foo'' 1)
                                    \<lparr>fm_sha1 := Some (replicate 40 CHR ''a'')\<rparr>)] [] []))
                ((sampleFile ''a.js'' True 7)
                   \<lparr>wf_sha1hex := Sha1String (replicate 40 CHR ''a'')\<rparr>)))
        ''a.js''
      = Some ((sampleMeta ''Foo'' 1)
                \<lparr>fm_sha1 := Some (replicate 40 CHR ''a''), fm_mtime := 7\<rparr>)"
  using mergeFile_records_existing_file
    [of "(sampleFile ''a.js'' True 7) \<lparr>wf_sha1hex := Sha1String (replicate 40 CHR ''a'')\<rparr>"
        relativeBelow "''/r''" False "[]" "''/r''"
        "initialCrawlState False
           (sampleIndex [(''a.js'', (sampleMeta ''Foo'' 1)
                            \<lparr>fm_sha1 := Some (replicate 40 CHR ''a'')\<rparr>)] [] [])"]
  by (auto simp: sampleFile_def sampleMeta_def sampleIndex_def initialCrawlState_def
      responsePath_def normalizePathSep_def path_sep_def relativeBelow_def)

text \<open>
  The claim as written does not hold for a sha1 that has forty characters which are not
  hexadecimal digits: the crawler tests the length alone and records the string.
\<close>

theorem mergeFile_non_hex_sha1_counterexample:
  "\<not> isSha1Hex (replicate 40 CHR ''z'')
   \<and> map_of (cs_files (mergeFile relativeBelow ''/r'' False [] ''/r''
                (initialCrawlState False (sampleIndex [] [] []))
                \<lparr>wf_name = ''a.js'', wf_exists = True, wf_mtime_ms = 5, wf_size = 10,
                 wf_sha1hex = Sha1String (replicate 40 CHR ''z'')\<rparr>))
        ''a.js''
      = Some \<lparr>fm_id = [], fm_mtime = 5, fm_size = 10, fm_visited = 0,
              fm_dependencies = [], fm_sha1 = Some (replicate 40 CHR ''z'')\<rparr>"
  by (simp add: isSha1Hex_def isHexDigit_def list_all_iff mergeFile_def initialCrawlState_def
      sampleIndex_def normalizePathSep_def path_sep_def relativeBelow_def nextData_def
      validSha1hex_def Let_def)

end
